theory Spec2Isabelle
  imports Main "HOL-Library.AList"
begin

section \<open>JavaScript values, objects and property order\<close>

text \<open>
  The shared state lives in plain JavaScript objects.  The own properties of an object
  with string keys are an association list with distinct keys, kept in the order in which
  \<^verbatim>\<open>for (const k in obj)\<close> enumerates them: array-index keys (canonical decimal
  strings below \<open>2^32 - 1\<close>) first, in ascending numeric order, then every other key in
  insertion order.  A plain object inherits the members of \<^verbatim>\<open>Object.prototype\<close>, listed
  in \<open>object_prototype_members\<close>: none of them is enumerable, all are functions but
  \<^verbatim>\<open>__proto__\<close>, which reads and replaces the prototype of the object.  Values of type
  \<^verbatim>\<open>any\<close> are JSON-like trees; numbers are integers (timestamps and timeouts are
  whole milliseconds).  \<open>JBuiltin\<close> is a function or object of the language itself: it is
  truthy and has no member named \<^verbatim>\<open>locks\<close>, \<^verbatim>\<open>data\<close>, \<^verbatim>\<open>ownerId\<close> or
  \<^verbatim>\<open>timestamp\<close>.
\<close>

datatype jsany =
    JUndefined
  | JNull
  | JBool bool
  | JNum int
  | JStr string
  | JObj "(string \<times> jsany) list"
  | JBuiltin

type_synonym 'a jsobject = "(string \<times> 'a) list"

definition is_digit :: "char \<Rightarrow> bool" where
  "is_digit c \<longleftrightarrow> 48 \<le> (of_char c :: nat) \<and> (of_char c :: nat) \<le> 57"

definition digits_value :: "string \<Rightarrow> nat" where
  "digits_value s = foldl (\<lambda>n c. 10 * n + ((of_char c :: nat) - 48)) 0 s"

definition is_array_index :: "string \<Rightarrow> bool" where
  "is_array_index s \<longleftrightarrow>
     s \<noteq> [] \<and> list_all is_digit s \<and> (length s = 1 \<or> hd s \<noteq> CHR ''0'')
     \<and> digits_value s < 4294967295"

fun insert_index :: "string \<Rightarrow> 'a \<Rightarrow> 'a jsobject \<Rightarrow> 'a jsobject" where
  "insert_index k v [] = [(k, v)]"
| "insert_index k v ((k', v') # rest) =
     (if is_array_index k' \<and> digits_value k' < digits_value k
      then (k', v') # insert_index k v rest
      else (k, v) # (k', v') # rest)"

definition js_put :: "string \<Rightarrow> 'a \<Rightarrow> 'a jsobject \<Rightarrow> 'a jsobject" where
  \<comment> \<open>\<^verbatim>\<open>obj[k] = v\<close> for a key other than \<^verbatim>\<open>__proto__\<close>, which the callers
      treat apart: an existing key keeps its place, a new one is enumerated after the keys
      of its kind.\<close>
  "js_put k v obj =
     (if k \<in> fst ` set obj then AList.update k v obj
      else if is_array_index k then insert_index k v obj
      else obj @ [(k, v)])"

definition js_delete :: "string \<Rightarrow> 'a jsobject \<Rightarrow> 'a jsobject" where
  \<comment> \<open>\<^verbatim>\<open>delete obj[k]\<close>\<close>
  "js_delete k obj = AList.delete k obj"

definition js_keys :: "'a jsobject \<Rightarrow> string list" where
  \<comment> \<open>the keys a \<^verbatim>\<open>for ... in\<close> loop is about to visit\<close>
  "js_keys obj = map fst obj"

definition js_truthy :: "string option \<Rightarrow> bool" where
  \<comment> \<open>truthiness of a \<^verbatim>\<open>string | null\<close>: neither \<^verbatim>\<open>null\<close> nor the empty string\<close>
  "js_truthy s \<longleftrightarrow> (case s of None \<Rightarrow> False | Some x \<Rightarrow> x \<noteq> [])"

definition object_prototype_members :: "string list" where
  "object_prototype_members =
     [''constructor'', ''__defineGetter__'', ''__defineSetter__'', ''hasOwnProperty'',
      ''__lookupGetter__'', ''__lookupSetter__'', ''isPrototypeOf'', ''propertyIsEnumerable'',
      ''toString'', ''valueOf'', ''__proto__'', ''toLocaleString'']"

fun truthy :: "jsany \<Rightarrow> bool" where
  "truthy JUndefined = False"
| "truthy JNull = False"
| "truthy (JBool b) = b"
| "truthy (JNum n) = (n \<noteq> 0)"
| "truthy (JStr s) = (s \<noteq> [])"
| "truthy (JObj props) = True"
| "truthy JBuiltin = True"

definition nullish :: "jsany \<Rightarrow> bool" where
  \<comment> \<open>\<^verbatim>\<open>undefined\<close> or \<^verbatim>\<open>null\<close>: reading a property of such a value throws \<^verbatim>\<open>TypeError\<close>\<close>
  "nullish v \<longleftrightarrow> v = JUndefined \<or> v = JNull"

fun foreign_member :: "jsany \<Rightarrow> string \<Rightarrow> jsany" where
  \<comment> \<open>\<^verbatim>\<open>v[name]\<close> for a truthy value \<open>v\<close> and a name that is neither a member of
      \<^verbatim>\<open>Object.prototype\<close> nor of a string, number or boolean\<close>
  "foreign_member (JObj props) name = (case map_of props name of Some x \<Rightarrow> x | None \<Rightarrow> JUndefined)"
| "foreign_member v name = JUndefined"

text \<open>
  What a method can end in besides its result: a thrown \<^verbatim>\<open>Error\<close> with its message, a
  thrown \<^verbatim>\<open>TypeError\<close> (a property read from \<^verbatim>\<open>undefined\<close> or \<^verbatim>\<open>null\<close>, a
  property written to a string, number or boolean in strict mode), and \<open>Ill_typed\<close>: the
  method went on with, or returned, a value that is not of the type the source declares
  for it.  What the code does from there depends on the contents of that value, and the
  model follows it no further.  Every method returns the window it leaves behind along
  with its result or error.
\<close>

datatype error = Error string | TypeError | Ill_typed

section \<open>SharedStateManager: data model\<close>

text \<open>
  \<^verbatim>\<open>LockState\<close>, \<^verbatim>\<open>SharedStateStorage\<close>, \<^verbatim>\<open>LockAcquisitionResult\<close> and
  \<^verbatim>\<open>SharedStateManagerOptions\<close> of shared-state-manager.ts.  An optional field is an
  \<open>option\<close>; \<^verbatim>\<open>ownerId: string | null\<close> is \<open>None\<close> for \<^verbatim>\<open>null\<close>.  The field
  \<open>currentOwnerId\<close> of a result is \<open>None\<close> where the returned object has no such field.
\<close>

record LockState =
  ownerId :: "string option"
  timestamp :: int
  metadata :: "(string \<times> jsany) list option"

text \<open>
  The object \<^verbatim>\<open>state.locks\<close> starts as \<^verbatim>\<open>{}\<close>.  Its own properties are locks.
  The assignment \<^verbatim>\<open>state.locks['__proto__'] = lock\<close> creates no own property: it makes
  the lock object the prototype of \<^verbatim>\<open>state.locks\<close>, kept in \<open>prototype_lock\<close>
  (\<open>None\<close> while the prototype is \<^verbatim>\<open>Object.prototype\<close>).  The three properties of that
  lock are then inherited, and enumerated, by \<^verbatim>\<open>state.locks\<close>.  No assignment of the
  class creates an own property named \<^verbatim>\<open>__proto__\<close>, so \<open>own_locks\<close> has no such key.
\<close>

record locks_object =
  own_locks :: "LockState jsobject"
  prototype_lock :: "LockState option"

record SharedStateStorage =
  version :: string
  locks :: locks_object
  data :: "jsany jsobject"

record LockAcquisitionResult =
  success :: bool
  currentOwnerId :: "string option"
  wasStale :: bool

record SharedStateManagerOptions =
  opt_namespace :: "string option"
  opt_version :: "string option"
  opt_staleLockTimeout :: "int option"

text \<open>
  What \<^verbatim>\<open>state.locks[lockName]\<close> can be: \<^verbatim>\<open>undefined\<close>, a lock object (an own
  property, or the prototype read through \<^verbatim>\<open>__proto__\<close>), a property inherited from
  the lock that serves as prototype (its owner id, its timestamp, its metadata object), or
  a member of \<^verbatim>\<open>Object.prototype\<close>.
\<close>

datatype member =
    MUndefined
  | MNull
  | MString string
  | MNumber int
  | MLock LockState
  | MMetadata "(string \<times> jsany) list"
  | MBuiltin

definition inherited_from_lock :: "LockState \<Rightarrow> string \<Rightarrow> member option" where
  \<comment> \<open>the own properties of the object \<^verbatim>\<open>{ ownerId, timestamp, metadata }\<close>\<close>
  "inherited_from_lock l name =
     (if name = ''ownerId'' then Some (case ownerId l of None \<Rightarrow> MNull | Some s \<Rightarrow> MString s)
      else if name = ''timestamp'' then Some (MNumber (timestamp l))
      else if name = ''metadata''
      then Some (case metadata l of None \<Rightarrow> MUndefined | Some md \<Rightarrow> MMetadata md)
      else None)"

definition lookup_lock :: "locks_object \<Rightarrow> string \<Rightarrow> member" where
  \<comment> \<open>\<^verbatim>\<open>state.locks[lockName]\<close>\<close>
  "lookup_lock ls name =
     (if name = ''__proto__''
      then (case prototype_lock ls of Some l \<Rightarrow> MLock l | None \<Rightarrow> MBuiltin)
      else case map_of (own_locks ls) name of
             Some l \<Rightarrow> MLock l
           | None \<Rightarrow>
               (case (case prototype_lock ls of
                        Some l \<Rightarrow> inherited_from_lock l name
                      | None \<Rightarrow> None) of
                  Some v \<Rightarrow> v
                | None \<Rightarrow>
                    if name \<in> set object_prototype_members then MBuiltin else MUndefined))"

definition assign_lock :: "string \<Rightarrow> LockState \<Rightarrow> locks_object \<Rightarrow> locks_object" where
  \<comment> \<open>\<^verbatim>\<open>state.locks[lockName] = lock\<close>\<close>
  "assign_lock name l ls =
     (if name = ''__proto__'' then ls\<lparr>prototype_lock := Some l\<rparr>
      else ls\<lparr>own_locks := js_put name l (own_locks ls)\<rparr>)"

definition delete_lock :: "string \<Rightarrow> locks_object \<Rightarrow> locks_object" where
  \<comment> \<open>\<^verbatim>\<open>delete state.locks[lockName]\<close>: removes an own property, and nothing when the
      name is not an own property\<close>
  "delete_lock name ls =
     (if name = ''__proto__'' then ls
      else ls\<lparr>own_locks := js_delete name (own_locks ls)\<rparr>)"

definition enumerate_locks :: "locks_object \<Rightarrow> string list" where
  \<comment> \<open>the keys \<^verbatim>\<open>for (const lockName in state.locks)\<close> is about to visit: the own keys,
      then the enumerable keys of the prototype that no own key hides\<close>
  "enumerate_locks ls =
     js_keys (own_locks ls)
     @ (case prototype_lock ls of
          None \<Rightarrow> []
        | Some l \<Rightarrow> filter (\<lambda>k. k \<notin> set (js_keys (own_locks ls)))
                      [''ownerId'', ''timestamp'', ''metadata''])"

definition still_enumerable :: "locks_object \<Rightarrow> string \<Rightarrow> bool" where
  \<comment> \<open>a key deleted before its turn is skipped by \<^verbatim>\<open>for ... in\<close>\<close>
  "still_enumerable ls name \<longleftrightarrow>
     name \<in> set (js_keys (own_locks ls))
     \<or> (case prototype_lock ls of
          None \<Rightarrow> False
        | Some l \<Rightarrow> inherited_from_lock l name \<noteq> None)"

text \<open>
  The private fields of the class.  \<^verbatim>\<open>_window\<close> is the one page-wide window object: it
  is not a field of the model but the state every method takes and returns.  Under a name
  the window holds nothing (\<open>None\<close>), or
  \<^item> \<open>Storage\<close>: an object \<^verbatim>\<open>{ version, locks, data }\<close> made by
    \<^verbatim>\<open>_ensureSharedState\<close> and reachable under this name only;
  \<^item> \<open>Foreign\<close>: an ordinary data property holding any other value, such as the record
    another library keeps there;
  \<^item> \<open>Opaque\<close>: a property the model does not describe, such as an accessor the browser
    defines (\<^verbatim>\<open>name\<close>, \<^verbatim>\<open>location\<close>) or an alias of the window or of an object
    another property holds (\<^verbatim>\<open>self\<close>).
  The window object inherits the members of \<^verbatim>\<open>Object.prototype\<close> too: under such a
  name, and with no own property, it reads as a built-in.  \<^verbatim>\<open>Date.now()\<close> is the
  argument \<open>now\<close> of each method: one synchronous call reads one clock value.
\<close>

record SharedStateManager =
  m_namespace :: string
  m_version :: string
  m_staleLockTimeout :: int
  m_instanceId :: string

datatype slot = Storage SharedStateStorage | Foreign jsany | Opaque

type_synonym window = "string \<rightharpoonup> slot"

definition window_get :: "window \<Rightarrow> string \<Rightarrow> slot option" where
  \<comment> \<open>\<^verbatim>\<open>this._window[name]\<close>; \<open>None\<close> is \<^verbatim>\<open>undefined\<close>\<close>
  "window_get w name =
     (case w name of
        Some s \<Rightarrow> Some s
      | None \<Rightarrow> if name \<in> set object_prototype_members then Some (Foreign JBuiltin) else None)"

section \<open>SharedStateManager: construction\<close>

definition digit_char :: "nat \<Rightarrow> char" where
  "digit_char d = ''0123456789'' ! d"

fun string_of_nat :: "nat \<Rightarrow> string" where
  "string_of_nat n =
     (if n < 10 then [digit_char n]
      else string_of_nat (n div 10) @ [digit_char (n mod 10)])"

declare string_of_nat.simps [simp del]

definition string_of_int :: "int \<Rightarrow> string" where
  "string_of_int i = (if i < 0 then CHR ''-'' # string_of_nat (nat (- i)) else string_of_nat (nat i))"

definition generateInstanceId :: "int \<Rightarrow> string \<Rightarrow> string" where
  \<comment> \<open>\<open>rnd\<close> is \<^verbatim>\<open>Math.random().toString(36).substr(2, 9)\<close>, an input of the model\<close>
  "generateInstanceId now rnd = ''instance_'' @ string_of_int now @ ''_'' @ rnd"

definition or_default :: "string option \<Rightarrow> string \<Rightarrow> string" where
  \<comment> \<open>\<^verbatim>\<open>s || d\<close> on an optional string: \<^verbatim>\<open>undefined\<close> and \<^verbatim>\<open>''\<close> are falsy\<close>
  "or_default s d = (case s of None \<Rightarrow> d | Some x \<Rightarrow> if x = [] then d else x)"

definition or_default_num :: "int option \<Rightarrow> int \<Rightarrow> int" where
  \<comment> \<open>\<^verbatim>\<open>n || d\<close> on an optional number: \<^verbatim>\<open>undefined\<close> and \<^verbatim>\<open>0\<close> are falsy\<close>
  "or_default_num n d = (case n of None \<Rightarrow> d | Some x \<Rightarrow> if x = 0 then d else x)"

definition new_storage :: "SharedStateManager \<Rightarrow> SharedStateStorage" where
  \<comment> \<open>\<^verbatim>\<open>{ version: this._version, locks: {}, data: {} }\<close>\<close>
  "new_storage m =
     \<lparr>version = m_version m, locks = \<lparr>own_locks = [], prototype_lock = None\<rparr>, data = []\<rparr>"

definition ensureSharedState :: "SharedStateManager \<Rightarrow> window \<Rightarrow> window" where
  \<comment> \<open>a falsy value is replaced by a new storage; any truthy value is left as it is,
      storage or not\<close>
  "ensureSharedState m w =
     (case window_get w (m_namespace m) of
        None \<Rightarrow> w(m_namespace m \<mapsto> Storage (new_storage m))
      | Some (Storage st) \<Rightarrow> w
      | Some (Foreign v) \<Rightarrow>
          if truthy v then w else w(m_namespace m \<mapsto> Storage (new_storage m))
      | Some Opaque \<Rightarrow> w)"

definition SharedStateManager_new ::
  "SharedStateManagerOptions \<Rightarrow> int \<Rightarrow> string \<Rightarrow> window \<Rightarrow> SharedStateManager \<times> window" where
  "SharedStateManager_new options now rnd w =
     (let m = \<lparr>m_namespace = or_default (opt_namespace options) ''__WME_SDK_PLUS_SHARED_STATE__'',
               m_version = or_default (opt_version options) ''1.0.0'',
               m_staleLockTimeout = or_default_num (opt_staleLockTimeout options) 60000,
               m_instanceId = generateInstanceId now rnd\<rparr>
      in (m, ensureSharedState m w))"

definition getSharedState :: "SharedStateManager \<Rightarrow> window \<Rightarrow> slot \<times> window" where
  \<comment> \<open>what the window holds under the namespace after \<open>ensureSharedState\<close>, typed by the
      source as a storage; writes to a storage are written back under the namespace by
      the callers below\<close>
  "getSharedState m w =
     (let w' = ensureSharedState m w
      in case window_get w' (m_namespace m) of
           Some state \<Rightarrow> (state, w')
         | None \<Rightarrow> (Opaque, w'))"

definition isLockStale :: "SharedStateManager \<Rightarrow> int \<Rightarrow> LockState \<Rightarrow> bool" where
  "isLockStale m now lock \<longleftrightarrow> now - timestamp lock > m_staleLockTimeout m"

definition foreign_read :: "jsany \<Rightarrow> string \<Rightarrow> error" where
  \<comment> \<open>\<^verbatim>\<open>state.locks[...]\<close> or \<^verbatim>\<open>state.data[...]\<close> on a value that is no storage: a
      \<^verbatim>\<open>TypeError\<close> when it has no such member, and otherwise a read from whatever
      that member is\<close>
  "foreign_read v name = (if nullish (foreign_member v name) then TypeError else Ill_typed)"

section \<open>SharedStateManager: locks\<close>

text \<open>
  Where \<^verbatim>\<open>state.locks[lockName]\<close> is no lock object, the tests of the methods come
  out as follows.  A string, a number or a built-in has no \<^verbatim>\<open>ownerId\<close> and no
  \<^verbatim>\<open>timestamp\<close>: the owner read from it is \<^verbatim>\<open>undefined\<close>, and it is not stale, since
  \<^verbatim>\<open>Date.now() - undefined\<close> is \<^verbatim>\<open>NaN\<close> and no comparison with \<^verbatim>\<open>NaN\<close> holds.
  A metadata object has whatever members its author gave it: a method that reads one as a
  lock ends in \<open>Ill_typed\<close>.
\<close>

definition acquireLock ::
  "SharedStateManager \<Rightarrow> int \<Rightarrow> string \<Rightarrow> (string \<times> jsany) list option \<Rightarrow> window
     \<Rightarrow> (error + LockAcquisitionResult) \<times> window" where
  "acquireLock m now lockName md w =
     (let (state, w1) = getSharedState m w
      in case state of
           Storage st \<Rightarrow>
             (let lock = lookup_lock (locks st) lockName;
                  take = (\<lambda>wasStale'.
                    (Inr \<lparr>success = True, currentOwnerId = None, wasStale = wasStale'\<rparr>,
                     w1(m_namespace m \<mapsto> Storage (st\<lparr>locks :=
                          assign_lock lockName
                            \<lparr>ownerId = Some (m_instanceId m), timestamp = now, metadata = md\<rparr>
                            (locks st)\<rparr>))))
              in case lock of
                   MLock l \<Rightarrow>
                     if js_truthy (ownerId l) \<and> \<not> isLockStale m now l
                     then (Inr \<lparr>success = False, currentOwnerId = ownerId l, wasStale = False\<rparr>, w1)
                     else take (isLockStale m now l)
                 | MMetadata x \<Rightarrow> (Inl Ill_typed, w1)
                 | MUndefined \<Rightarrow> take False
                 | MNull \<Rightarrow> take False
                 | MString s \<Rightarrow> take False
                 | MNumber n \<Rightarrow> take False
                 | MBuiltin \<Rightarrow> take False)
         | Foreign v \<Rightarrow> (Inl (foreign_read v ''locks''), w1)
         | Opaque \<Rightarrow> (Inl Ill_typed, w1))"

definition releaseLock ::
  "SharedStateManager \<Rightarrow> string \<Rightarrow> window \<Rightarrow> (error + bool) \<times> window" where
  "releaseLock m lockName w =
     (let (state, w1) = getSharedState m w
      in case state of
           Storage st \<Rightarrow>
             (case lookup_lock (locks st) lockName of
                MLock l \<Rightarrow>
                  if ownerId l = Some (m_instanceId m)
                  then (Inr True,
                        w1(m_namespace m \<mapsto> Storage (st\<lparr>locks := delete_lock lockName (locks st)\<rparr>)))
                  else (Inr False, w1)
              | MMetadata x \<Rightarrow> (Inl Ill_typed, w1)
              | MUndefined \<Rightarrow> (Inr False, w1)
              | MNull \<Rightarrow> (Inr False, w1)
              | MString s \<Rightarrow> (Inr False, w1)
              | MNumber n \<Rightarrow> (Inr False, w1)
              | MBuiltin \<Rightarrow> (Inr False, w1))
         | Foreign v \<Rightarrow> (Inl (foreign_read v ''locks''), w1)
         | Opaque \<Rightarrow> (Inl Ill_typed, w1))"

definition hasLock ::
  "SharedStateManager \<Rightarrow> string \<Rightarrow> window \<Rightarrow> (error + bool) \<times> window" where
  "hasLock m lockName w =
     (let (state, w1) = getSharedState m w
      in case state of
           Storage st \<Rightarrow>
             (case lookup_lock (locks st) lockName of
                MLock l \<Rightarrow> (Inr (ownerId l = Some (m_instanceId m)), w1)
              | MMetadata x \<Rightarrow> (Inl Ill_typed, w1)
              | MUndefined \<Rightarrow> (Inr False, w1)
              | MNull \<Rightarrow> (Inr False, w1)
              | MString s \<Rightarrow> (Inr False, w1)
              | MNumber n \<Rightarrow> (Inr False, w1)
              | MBuiltin \<Rightarrow> (Inr False, w1))
         | Foreign v \<Rightarrow> (Inl (foreign_read v ''locks''), w1)
         | Opaque \<Rightarrow> (Inl Ill_typed, w1))"

definition isLockHeld ::
  "SharedStateManager \<Rightarrow> int \<Rightarrow> string \<Rightarrow> window \<Rightarrow> (error + bool) \<times> window" where
  "isLockHeld m now lockName w =
     (let (state, w1) = getSharedState m w
      in case state of
           Storage st \<Rightarrow>
             (case lookup_lock (locks st) lockName of
                MLock l \<Rightarrow> (Inr (ownerId l \<noteq> None \<and> \<not> isLockStale m now l), w1)
              | MMetadata x \<Rightarrow> (Inl Ill_typed, w1)
              | MUndefined \<Rightarrow> (Inr False, w1)
              | MNull \<Rightarrow> (Inr False, w1)
              | MString s \<Rightarrow> (Inr False, w1)
              | MNumber n \<Rightarrow> (Inr False, w1)
              | MBuiltin \<Rightarrow> (Inr False, w1))
         | Foreign v \<Rightarrow> (Inl (foreign_read v ''locks''), w1)
         | Opaque \<Rightarrow> (Inl Ill_typed, w1))"

definition getLockInfo ::
  "SharedStateManager \<Rightarrow> int \<Rightarrow> string \<Rightarrow> window \<Rightarrow> (error + LockState option) \<times> window" where
  \<comment> \<open>a truthy value that is no lock is not stale, and its copy \<^verbatim>\<open>{ ...lock }\<close> is
      returned in the place of a \<^verbatim>\<open>LockState\<close>\<close>
  "getLockInfo m now lockName w =
     (let (state, w1) = getSharedState m w
      in case state of
           Storage st \<Rightarrow>
             (case lookup_lock (locks st) lockName of
                MLock l \<Rightarrow> (Inr (if isLockStale m now l then None else Some l), w1)
              | MMetadata x \<Rightarrow> (Inl Ill_typed, w1)
              | MUndefined \<Rightarrow> (Inr None, w1)
              | MNull \<Rightarrow> (Inr None, w1)
              | MString s \<Rightarrow> (if s = [] then (Inr None, w1) else (Inl Ill_typed, w1))
              | MNumber n \<Rightarrow> (if n = 0 then (Inr None, w1) else (Inl Ill_typed, w1))
              | MBuiltin \<Rightarrow> (Inl Ill_typed, w1))
         | Foreign v \<Rightarrow> (Inl (foreign_read v ''locks''), w1)
         | Opaque \<Rightarrow> (Inl Ill_typed, w1))"

text \<open>
  The loops run over the keys the object has when the loop starts; a key deleted before
  its turn is skipped.  A loop that throws leaves the deletions it has made.  Over a
  foreign value with no \<^verbatim>\<open>locks\<close> member the loops make no round:
  \<^verbatim>\<open>for (k in undefined)\<close> does nothing.
\<close>

fun releaseAllLocks_loop ::
  "SharedStateManager \<Rightarrow> string list \<Rightarrow> locks_object \<Rightarrow> nat \<Rightarrow> (error + nat) \<times> locks_object" where
  "releaseAllLocks_loop m [] ls released = (Inr released, ls)"
| "releaseAllLocks_loop m (lockName # rest) ls released =
     (if \<not> still_enumerable ls lockName then releaseAllLocks_loop m rest ls released
      else case lookup_lock ls lockName of
             MLock l \<Rightarrow>
               if ownerId l = Some (m_instanceId m)
               then releaseAllLocks_loop m rest (delete_lock lockName ls) (released + 1)
               else releaseAllLocks_loop m rest ls released
           | MMetadata x \<Rightarrow> (Inl Ill_typed, ls)
           | MUndefined \<Rightarrow> (Inl TypeError, ls)
           | MNull \<Rightarrow> (Inl TypeError, ls)
           | MString s \<Rightarrow> releaseAllLocks_loop m rest ls released
           | MNumber n \<Rightarrow> releaseAllLocks_loop m rest ls released
           | MBuiltin \<Rightarrow> releaseAllLocks_loop m rest ls released)"

definition releaseAllLocks ::
  "SharedStateManager \<Rightarrow> window \<Rightarrow> (error + nat) \<times> window" where
  "releaseAllLocks m w =
     (let (state, w1) = getSharedState m w
      in case state of
           Storage st \<Rightarrow>
             (let (r, ls) = releaseAllLocks_loop m (enumerate_locks (locks st)) (locks st) 0
              in (r, w1(m_namespace m \<mapsto> Storage (st\<lparr>locks := ls\<rparr>))))
         | Foreign v \<Rightarrow>
             if nullish (foreign_member v ''locks'') then (Inr 0, w1) else (Inl Ill_typed, w1)
         | Opaque \<Rightarrow> (Inl Ill_typed, w1))"

fun listLocks_loop ::
  "SharedStateManager \<Rightarrow> int \<Rightarrow> bool \<Rightarrow> locks_object \<Rightarrow> string list \<Rightarrow> string list
     \<Rightarrow> error + string list" where
  "listLocks_loop m now includeStale ls [] acc = Inr acc"
| "listLocks_loop m now includeStale ls (lockName # rest) acc =
     (if \<not> still_enumerable ls lockName then listLocks_loop m now includeStale ls rest acc
      else if includeStale then listLocks_loop m now includeStale ls rest (acc @ [lockName])
      else case lookup_lock ls lockName of
             MLock lock \<Rightarrow>
               if \<not> isLockStale m now lock
               then listLocks_loop m now includeStale ls rest (acc @ [lockName])
               else listLocks_loop m now includeStale ls rest acc
           | MMetadata x \<Rightarrow> Inl Ill_typed
           | MUndefined \<Rightarrow> Inl TypeError
           | MNull \<Rightarrow> Inl TypeError
           | MString s \<Rightarrow> listLocks_loop m now includeStale ls rest (acc @ [lockName])
           | MNumber n \<Rightarrow> listLocks_loop m now includeStale ls rest (acc @ [lockName])
           | MBuiltin \<Rightarrow> listLocks_loop m now includeStale ls rest (acc @ [lockName]))"

definition listLocks ::
  "SharedStateManager \<Rightarrow> int \<Rightarrow> bool \<Rightarrow> window \<Rightarrow> (error + string list) \<times> window" where
  "listLocks m now includeStale w =
     (let (state, w1) = getSharedState m w
      in case state of
           Storage st \<Rightarrow>
             (listLocks_loop m now includeStale (locks st) (enumerate_locks (locks st)) [], w1)
         | Foreign v \<Rightarrow>
             if nullish (foreign_member v ''locks'') then (Inr [], w1) else (Inl Ill_typed, w1)
         | Opaque \<Rightarrow> (Inl Ill_typed, w1))"

fun cleanupStaleLocks_loop ::
  "SharedStateManager \<Rightarrow> int \<Rightarrow> string list \<Rightarrow> locks_object \<Rightarrow> nat
     \<Rightarrow> (error + nat) \<times> locks_object" where
  "cleanupStaleLocks_loop m now [] ls removed = (Inr removed, ls)"
| "cleanupStaleLocks_loop m now (lockName # rest) ls removed =
     (if \<not> still_enumerable ls lockName then cleanupStaleLocks_loop m now rest ls removed
      else case lookup_lock ls lockName of
             MLock l \<Rightarrow>
               if isLockStale m now l
               then cleanupStaleLocks_loop m now rest (delete_lock lockName ls) (removed + 1)
               else cleanupStaleLocks_loop m now rest ls removed
           | MMetadata x \<Rightarrow> (Inl Ill_typed, ls)
           | MUndefined \<Rightarrow> (Inl TypeError, ls)
           | MNull \<Rightarrow> (Inl TypeError, ls)
           | MString s \<Rightarrow> cleanupStaleLocks_loop m now rest ls removed
           | MNumber n \<Rightarrow> cleanupStaleLocks_loop m now rest ls removed
           | MBuiltin \<Rightarrow> cleanupStaleLocks_loop m now rest ls removed)"

definition cleanupStaleLocks ::
  "SharedStateManager \<Rightarrow> int \<Rightarrow> window \<Rightarrow> (error + nat) \<times> window" where
  "cleanupStaleLocks m now w =
     (let (state, w1) = getSharedState m w
      in case state of
           Storage st \<Rightarrow>
             (let (r, ls) = cleanupStaleLocks_loop m now (enumerate_locks (locks st)) (locks st) 0
              in (r, w1(m_namespace m \<mapsto> Storage (st\<lparr>locks := ls\<rparr>))))
         | Foreign v \<Rightarrow>
             if nullish (foreign_member v ''locks'') then (Inr 0, w1) else (Inl Ill_typed, w1)
         | Opaque \<Rightarrow> (Inl Ill_typed, w1))"

section \<open>SharedStateManager: shared data\<close>

text \<open>
  The object \<^verbatim>\<open>state.data\<close> is a plain object too.  Assigning an object or
  \<^verbatim>\<open>null\<close> under the key \<^verbatim>\<open>__proto__\<close> replaces its prototype, after which it is no
  plain object (\<open>Ill_typed\<close>); assigning any other value under that key does nothing.  A
  key that is no own property reads as the member of \<^verbatim>\<open>Object.prototype\<close> of that
  name, if there is one.
\<close>

definition setSharedData ::
  "SharedStateManager \<Rightarrow> string \<Rightarrow> jsany \<Rightarrow> window \<Rightarrow> (error + unit) \<times> window" where
  "setSharedData m key val w =
     (let (state, w1) = getSharedState m w
      in case state of
           Storage st \<Rightarrow>
             if key = ''__proto__''
             then (case val of
                     JNull \<Rightarrow> (Inl Ill_typed, w1)
                   | JObj props \<Rightarrow> (Inl Ill_typed, w1)
                   | JBuiltin \<Rightarrow> (Inl Ill_typed, w1)
                   | JUndefined \<Rightarrow> (Inr (), w1)
                   | JBool b \<Rightarrow> (Inr (), w1)
                   | JNum n \<Rightarrow> (Inr (), w1)
                   | JStr s \<Rightarrow> (Inr (), w1))
             else (Inr (), w1(m_namespace m \<mapsto> Storage (st\<lparr>data := js_put key val (data st)\<rparr>)))
         | Foreign v \<Rightarrow> (Inl (foreign_read v ''data''), w1)
         | Opaque \<Rightarrow> (Inl Ill_typed, w1))"

definition getSharedData ::
  "SharedStateManager \<Rightarrow> string \<Rightarrow> jsany \<Rightarrow> window \<Rightarrow> (error + jsany) \<times> window" where
  \<comment> \<open>an omitted \<^verbatim>\<open>defaultValue\<close> is \<open>JUndefined\<close>\<close>
  "getSharedData m key defaultValue w =
     (let (state, w1) = getSharedState m w
      in case state of
           Storage st \<Rightarrow>
             (case map_of (data st) key of
                Some v \<Rightarrow> (Inr (if v \<noteq> JUndefined then v else defaultValue), w1)
              | None \<Rightarrow>
                  (Inr (if key \<in> set object_prototype_members then JBuiltin else defaultValue), w1))
         | Foreign v \<Rightarrow> (Inl (foreign_read v ''data''), w1)
         | Opaque \<Rightarrow> (Inl Ill_typed, w1))"

definition deleteSharedData ::
  "SharedStateManager \<Rightarrow> string \<Rightarrow> window \<Rightarrow> (error + bool) \<times> window" where
  \<comment> \<open>\<^verbatim>\<open>key in state.data\<close> holds of inherited members too; \<^verbatim>\<open>delete\<close> removes own
      properties only\<close>
  "deleteSharedData m key w =
     (let (state, w1) = getSharedState m w
      in case state of
           Storage st \<Rightarrow>
             if key \<in> set (js_keys (data st))
             then (Inr True, w1(m_namespace m \<mapsto> Storage (st\<lparr>data := js_delete key (data st)\<rparr>)))
             else if key \<in> set object_prototype_members then (Inr True, w1)
             else (Inr False, w1)
         | Foreign v \<Rightarrow> (Inl (foreign_read v ''data''), w1)
         | Opaque \<Rightarrow> (Inl Ill_typed, w1))"

definition clearSharedData ::
  "SharedStateManager \<Rightarrow> window \<Rightarrow> (error + unit) \<times> window" where
  \<comment> \<open>\<^verbatim>\<open>state.data = {}\<close> reads nothing: on a foreign object it sets the member, on a
      string, number or boolean it throws in strict mode\<close>
  "clearSharedData m w =
     (let (state, w1) = getSharedState m w
      in case state of
           Storage st \<Rightarrow> (Inr (), w1(m_namespace m \<mapsto> Storage (st\<lparr>data := []\<rparr>)))
         | Foreign v \<Rightarrow>
             (case v of
                JObj props \<Rightarrow>
                  (Inr (), w1(m_namespace m \<mapsto> Foreign (JObj (js_put ''data'' (JObj []) props))))
              | JBuiltin \<Rightarrow> (Inl Ill_typed, w1)
              | JUndefined \<Rightarrow> (Inl TypeError, w1)
              | JNull \<Rightarrow> (Inl TypeError, w1)
              | JBool b \<Rightarrow> (Inl TypeError, w1)
              | JNum n \<Rightarrow> (Inl TypeError, w1)
              | JStr s \<Rightarrow> (Inl TypeError, w1))
         | Opaque \<Rightarrow> (Inl Ill_typed, w1))"

definition getInstanceId :: "SharedStateManager \<Rightarrow> string" where
  "getInstanceId m = m_instanceId m"

definition getNamespace :: "SharedStateManager \<Rightarrow> string" where
  "getNamespace m = m_namespace m"

definition getVersion :: "SharedStateManager \<Rightarrow> string" where
  "getVersion m = m_version m"

text \<open>
  The public methods as one type of calls, so that a statement can range over every lock
  and data operation of the class: \<open>invoke m now c\<close> runs the method \<open>c\<close> names on the
  manager \<open>m\<close> at clock value \<open>now\<close>.
\<close>

datatype method_call =
    AcquireLock string "(string \<times> jsany) list option"
  | ReleaseLock string
  | HasLock string
  | IsLockHeld string
  | GetLockInfo string
  | ReleaseAllLocks
  | SetSharedData string jsany
  | GetSharedData string jsany
  | DeleteSharedData string
  | ClearSharedData
  | ListLocks bool
  | CleanupStaleLocks

datatype method_result =
    Acquisition LockAcquisitionResult
  | Boolean bool
  | Info "LockState option"
  | Count nat
  | Value jsany
  | Names "string list"
  | Void

fun invoke ::
  "SharedStateManager \<Rightarrow> int \<Rightarrow> method_call \<Rightarrow> window \<Rightarrow> (error + method_result) \<times> window" where
  "invoke m now (AcquireLock lockName md) w =
     map_prod (map_sum id Acquisition) id (acquireLock m now lockName md w)"
| "invoke m now (ReleaseLock lockName) w = map_prod (map_sum id Boolean) id (releaseLock m lockName w)"
| "invoke m now (HasLock lockName) w = map_prod (map_sum id Boolean) id (hasLock m lockName w)"
| "invoke m now (IsLockHeld lockName) w = map_prod (map_sum id Boolean) id (isLockHeld m now lockName w)"
| "invoke m now (GetLockInfo lockName) w = map_prod (map_sum id Info) id (getLockInfo m now lockName w)"
| "invoke m now ReleaseAllLocks w = map_prod (map_sum id Count) id (releaseAllLocks m w)"
| "invoke m now (SetSharedData key val) w =
     map_prod (map_sum id (\<lambda>u. Void)) id (setSharedData m key val w)"
| "invoke m now (GetSharedData key defaultValue) w =
     map_prod (map_sum id Value) id (getSharedData m key defaultValue w)"
| "invoke m now (DeleteSharedData key) w = map_prod (map_sum id Boolean) id (deleteSharedData m key w)"
| "invoke m now ClearSharedData w = map_prod (map_sum id (\<lambda>u. Void)) id (clearSharedData m w)"
| "invoke m now (ListLocks includeStale) w = map_prod (map_sum id Names) id (listLocks m now includeStale w)"
| "invoke m now CleanupStaleLocks w = map_prod (map_sum id Count) id (cleanupStaleLocks m now w)"

section \<open>SelectionModeManager\<close>

text \<open>
  selection-mode-manager.ts, the version that coordinates through a
  \<^verbatim>\<open>SharedStateManager\<close>.  The SDK, the sidebar controller, callbacks and the method
  interceptor are collaborators from outside: each is an opaque handle, and a call made on
  one is appended to the log \<open>b_calls\<close> of the browser state.  \<open>b_wazeMap\<close> tells whether
  \<^verbatim>\<open>window.W?.map\<close> is there.  A thrown error is the left summand of the result; the
  state a throwing call leaves behind is returned with it.  An error thrown by
  \<^verbatim>\<open>acquireLock\<close> is not caught and leaves \<^verbatim>\<open>enterSelectionMode\<close> as it is.
\<close>

datatype SelectableFeatureType =
    Segment | Venue | BigJunction | Node | MapComment | City
  | RestrictedDrivingArea | PermanentHazard | SegmentSuggestion

datatype PermanentHazardSubtype =
  SchoolZone | RailroadCrossing | SpeedBump | SharpCurve | DangerousTurn

datatype feature_id = IdNumber int | IdString string

datatype callback = Callback nat















section \<open>An example run\<close>

text \<open>
  The end-to-end scenario: two instances on the namespace \<open>ns1\<close> with a stale timeout
  of 100 ms.  \<open>instance1\<close> is constructed at time 1000 on an empty window, \<open>instance2\<close>
  at 1001; \<open>page_locked\<close> is the window after \<open>instance1\<close> has acquired the lock \<open>x\<close>
  at 1002, \<open>page_three\<close> the window after the instances have taken three locks in turn.
\<close>

definition options_ns1 :: SharedStateManagerOptions where
  "options_ns1 = \<lparr>opt_namespace = Some ''ns1'', opt_version = None, opt_staleLockTimeout = Some 100\<rparr>"

definition instance1 :: SharedStateManager where
  "instance1 = fst (SharedStateManager_new options_ns1 1000 ''k3j2h1g0f'' Map.empty)"

definition instance2 :: SharedStateManager where
  "instance2 = fst (SharedStateManager_new options_ns1 1001 ''z9y8x7w6v''
                      (snd (SharedStateManager_new options_ns1 1000 ''k3j2h1g0f'' Map.empty)))"

definition page_fresh :: window where
  "page_fresh = snd (SharedStateManager_new options_ns1 1001 ''z9y8x7w6v''
                      (snd (SharedStateManager_new options_ns1 1000 ''k3j2h1g0f'' Map.empty)))"

definition page_locked :: window where
  "page_locked = snd (acquireLock instance1 1002 ''x'' None page_fresh)"

definition page_three :: window where
  "page_three =
     snd (acquireLock instance1 1100 ''c'' None
       (snd (acquireLock instance2 1050 ''b'' None
         (snd (acquireLock instance1 1002 ''a'' None page_fresh)))))"

text \<open>
  \<open>page_proto\<close> is the window after \<open>instance1\<close> has acquired, at 1002 and without
  metadata, the lock named \<^verbatim>\<open>__proto__\<close>.
\<close>

definition page_proto :: window where
  "page_proto = snd (acquireLock instance1 1002 ''__proto__'' None page_fresh)"

text \<open>
  A manager whose namespace is \<^verbatim>\<open>toString\<close>, on an empty window.  A window on which
  the older \<^verbatim>\<open>SharedSelectionStateManager\<close> has left its record
  \<^verbatim>\<open>{ version, isActive, activeInstanceId, timestamp }\<close> under
  \<^verbatim>\<open>__WME_SDK_PLUS_SELECTION_MODE__\<close>, and a manager constructed on that namespace as
  \<^verbatim>\<open>SelectionModeManager\<close> constructs its own.
\<close>

definition instance_toString :: SharedStateManager where
  "instance_toString =
     fst (SharedStateManager_new
            \<lparr>opt_namespace = Some ''toString'', opt_version = None, opt_staleLockTimeout = None\<rparr>
            1000 ''k3j2h1g0f'' Map.empty)"

definition page_toString :: window where
  "page_toString =
     snd (SharedStateManager_new
            \<lparr>opt_namespace = Some ''toString'', opt_version = None, opt_staleLockTimeout = None\<rparr>
            1000 ''k3j2h1g0f'' Map.empty)"

definition legacy_record :: jsany where
  "legacy_record =
     JObj [(''version'', JStr ''1.0.0''), (''isActive'', JBool False),
           (''activeInstanceId'', JNull), (''timestamp'', JNum 1000)]"

definition instance_legacy :: SharedStateManager where
  "instance_legacy =
     fst (SharedStateManager_new
            \<lparr>opt_namespace = Some ''__WME_SDK_PLUS_SELECTION_MODE__'', opt_version = None,
             opt_staleLockTimeout = Some 60000\<rparr>
            1001 ''z9y8x7w6v'' [''__WME_SDK_PLUS_SELECTION_MODE__'' \<mapsto> Foreign legacy_record])"

definition page_legacy :: window where
  "page_legacy =
     snd (SharedStateManager_new
            \<lparr>opt_namespace = Some ''__WME_SDK_PLUS_SELECTION_MODE__'', opt_version = None,
             opt_staleLockTimeout = Some 60000\<rparr>
            1001 ''z9y8x7w6v'' [''__WME_SDK_PLUS_SELECTION_MODE__'' \<mapsto> Foreign legacy_record])"

text \<open>
  A third instance on another namespace, and two instances whose namespace options are
  the empty string and the default namespace written out.
\<close>

definition instance3 :: SharedStateManager where
  "instance3 = fst (SharedStateManager_new
                      \<lparr>opt_namespace = Some ''ns2'', opt_version = None, opt_staleLockTimeout = Some 100\<rparr>
                      1003 ''q1w2e3r4t'' page_locked)"

definition options_empty :: SharedStateManagerOptions where
  "options_empty = \<lparr>opt_namespace = Some '''', opt_version = None, opt_staleLockTimeout = None\<rparr>"

definition options_default :: SharedStateManagerOptions where
  "options_default = \<lparr>opt_namespace = Some ''__WME_SDK_PLUS_SHARED_STATE__'', opt_version = None,
                       opt_staleLockTimeout = None\<rparr>"

definition instance_empty :: SharedStateManager where
  "instance_empty = fst (SharedStateManager_new options_empty 1000 ''k3j2h1g0f'' Map.empty)"

definition instance_default :: SharedStateManager where
  "instance_default = fst (SharedStateManager_new options_default 1001 ''z9y8x7w6v''
                             (snd (SharedStateManager_new options_empty 1000 ''k3j2h1g0f'' Map.empty)))"

definition page_default :: window where
  "page_default = snd (SharedStateManager_new options_default 1001 ''z9y8x7w6v''
                         (snd (SharedStateManager_new options_empty 1000 ''k3j2h1g0f'' Map.empty)))"










section \<open>Auxiliary facts\<close>

subsection \<open>The window and the storage under a namespace\<close>

lemma getSharedState_storage:
  "w (m_namespace m) = Some (Storage st) \<Longrightarrow> getSharedState m w = (Storage st, w)"
  by (simp add: getSharedState_def ensureSharedState_def window_get_def)

lemma getSharedState_absent:
  "w (m_namespace m) = None \<Longrightarrow> m_namespace m \<notin> set object_prototype_members \<Longrightarrow>
   getSharedState m w =
     (Storage (new_storage m), w(m_namespace m \<mapsto> Storage (new_storage m)))"
  by (simp add: getSharedState_def ensureSharedState_def window_get_def)

lemma snd_getSharedState: "snd (getSharedState m w) = ensureSharedState m w"
  by (simp add: getSharedState_def ensureSharedState_def window_get_def
      split: option.splits slot.splits)

lemma ensureSharedState_other:
  "ns \<noteq> m_namespace m \<Longrightarrow> ensureSharedState m w ns = w ns"
  by (simp add: ensureSharedState_def split: option.splits slot.splits)

lemma getSharedState_other:
  "ns \<noteq> m_namespace m \<Longrightarrow> snd (getSharedState m w) ns = w ns"
  by (simp add: snd_getSharedState ensureSharedState_other)

lemma getSharedState_cases:
  assumes "getSharedState m w = (Storage st, w1)"
  shows "(w (m_namespace m) = Some (Storage st) \<and> w1 = w)
       \<or> (st = new_storage m \<and> w1 = w(m_namespace m \<mapsto> Storage (new_storage m)))"
  using assms
  by (auto simp: getSharedState_def ensureSharedState_def window_get_def Let_def
      split: option.splits slot.splits if_splits)

lemma getSharedState_written:
  "getSharedState m w = (Storage st, w1) \<Longrightarrow> w1 (m_namespace m) = Some (Storage st)"
  using getSharedState_cases[of m w st w1] by auto

lemma getSharedState_again:
  "getSharedState m (w(m_namespace m \<mapsto> Storage st)) = (Storage st, w(m_namespace m \<mapsto> Storage st))"
  by (simp add: getSharedState_storage)

lemma getSharedState_cong:
  "w1 (m_namespace m) = w2 (m_namespace m) \<Longrightarrow>
   fst (getSharedState m w1) = fst (getSharedState m w2)"
  by (simp add: getSharedState_def ensureSharedState_def window_get_def
      split: option.splits slot.splits)

lemma lookup_new_storage: "lookup_lock (locks (new_storage m)) name \<noteq> MLock l"
  by (simp add: lookup_lock_def new_storage_def)

lemma stored_lock_namespace:
  assumes "getSharedState m w = (Storage st, w1)"
      and "lookup_lock (locks st) lockName = MLock l"
  shows "w (m_namespace m) = Some (Storage st) \<and> w1 = w"
  using getSharedState_cases[OF assms(1)] assms(2) lookup_new_storage by auto

lemma instanceId_nonempty:
  "m_instanceId (fst (SharedStateManager_new options t0 rnd w0)) \<noteq> []"
  by (simp add: SharedStateManager_new_def generateInstanceId_def Let_def)

subsection \<open>Own properties\<close>

lemma map_of_insert_index:
  "k \<notin> fst ` set obj \<Longrightarrow> map_of (insert_index k v obj) = (map_of obj)(k \<mapsto> v)"
  by (induction obj) (auto simp: fun_eq_iff)

lemma map_of_snoc:
  "k \<notin> fst ` set obj \<Longrightarrow> map_of (obj @ [(k, v)]) = (map_of obj)(k \<mapsto> v)"
  by (induction obj) (auto simp: fun_eq_iff)

lemma map_of_js_put: "map_of (js_put k v obj) = (map_of obj)(k \<mapsto> v)"
  unfolding js_put_def
  by (simp add: map_of_insert_index update_conv' map_of_snoc del: map_of_append)

lemma map_of_js_delete: "map_of (js_delete k obj) = (map_of obj)(k := None)"
  by (simp add: js_delete_def delete_conv')

lemma lookup_assign_same: "lookup_lock (assign_lock name l ls) name = MLock l"
  by (simp add: lookup_lock_def assign_lock_def map_of_js_put)

lemma lookup_assign_other:
  "other \<noteq> name \<Longrightarrow> name \<noteq> ''__proto__'' \<Longrightarrow>
   lookup_lock (assign_lock name l ls) other = lookup_lock ls other"
  by (simp add: lookup_lock_def assign_lock_def map_of_js_put split: option.splits)

lemma lookup_delete_other:
  "other \<noteq> name \<Longrightarrow> lookup_lock (delete_lock name ls) other = lookup_lock ls other"
  by (simp add: lookup_lock_def delete_lock_def map_of_js_delete split: option.splits)

lemma lookup_delete_same:
  "name \<noteq> ''__proto__'' \<Longrightarrow> lookup_lock (delete_lock name ls) name \<noteq> MLock l"
  by (auto simp: lookup_lock_def delete_lock_def map_of_js_delete inherited_from_lock_def
      split: option.splits if_splits)

lemma lookup_delete_proto:
  "lookup_lock (delete_lock ''__proto__'' ls) ''__proto__'' = lookup_lock ls ''__proto__''"
  by (simp add: delete_lock_def)

subsection \<open>One namespace at a time\<close>

text \<open>
  A call through one manager writes only under that manager's namespace, and what it
  returns and writes depends only on what the window holds under that namespace.
\<close>

lemmas method_defs =
  acquireLock_def releaseLock_def hasLock_def isLockHeld_def getLockInfo_def
  releaseAllLocks_def setSharedData_def getSharedData_def deleteSharedData_def
  clearSharedData_def listLocks_def cleanupStaleLocks_def

lemma invoke_frame:
  assumes "ns \<noteq> m_namespace m"
  shows "snd (invoke m now c w) ns = w ns"
proof -
  obtain state w1 where g: "getSharedState m w = (state, w1)"
    by (cases "getSharedState m w")
  have w1: "w1 ns = w ns" using getSharedState_other[OF assms, of w] g by simp
  show ?thesis
    using g w1 assms
    by (cases c)
       (auto simp: method_defs Let_def
          split: prod.splits slot.splits member.splits jsany.splits option.splits if_splits)
qed

lemma invoke_local:
  assumes "w1 (m_namespace m) = w2 (m_namespace m)"
  shows "fst (invoke m now c w1) = fst (invoke m now c w2)
       \<and> snd (invoke m now c w1) (m_namespace m) = snd (invoke m now c w2) (m_namespace m)"
proof -
  obtain s1 v1 where g1: "getSharedState m w1 = (s1, v1)" by (cases "getSharedState m w1")
  obtain s2 v2 where g2: "getSharedState m w2 = (s2, v2)" by (cases "getSharedState m w2")
  have s: "s1 = s2" using getSharedState_cong[of w1 m w2] assms g1 g2 by simp
  have v: "v1 (m_namespace m) = v2 (m_namespace m)"
    using g1 g2 assms snd_getSharedState[of m w1] snd_getSharedState[of m w2]
    by (simp add: ensureSharedState_def window_get_def split: option.splits slot.splits)
  show ?thesis
    using g1 g2 s v
    by (cases c)
       (auto simp: method_defs Let_def
          split: prod.splits slot.splits member.splits jsany.splits option.splits if_splits)
qed

subsection \<open>The example run, evaluated\<close>

lemma string_of_int_1000: "string_of_int 1000 = ''1000''"
  by (simp add: string_of_int_def string_of_nat.simps digit_char_def)

lemma string_of_int_1001: "string_of_int 1001 = ''1001''"
  by (simp add: string_of_int_def string_of_nat.simps digit_char_def)

lemma string_of_int_1003: "string_of_int 1003 = ''1003''"
  by (simp add: string_of_int_def string_of_nat.simps digit_char_def)

lemmas constructor_simps =
  SharedStateManager_new_def or_default_def or_default_num_def generateInstanceId_def
  ensureSharedState_def window_get_def object_prototype_members_def new_storage_def
  string_of_int_1000 string_of_int_1001 string_of_int_1003 Let_def

lemma instance1_eq:
  "instance1 = \<lparr>m_namespace = ''ns1'', m_version = ''1.0.0'', m_staleLockTimeout = 100,
                 m_instanceId = ''instance_1000_k3j2h1g0f''\<rparr>"
  by (simp add: instance1_def options_ns1_def constructor_simps)

lemma instance2_eq:
  "instance2 = \<lparr>m_namespace = ''ns1'', m_version = ''1.0.0'', m_staleLockTimeout = 100,
                 m_instanceId = ''instance_1001_z9y8x7w6v''\<rparr>"
  by (simp add: instance2_def options_ns1_def constructor_simps)

lemma instance3_eq:
  "instance3 = \<lparr>m_namespace = ''ns2'', m_version = ''1.0.0'', m_staleLockTimeout = 100,
                 m_instanceId = ''instance_1003_q1w2e3r4t''\<rparr>"
  by (simp add: instance3_def constructor_simps)

lemma page_fresh_eq:
  "page_fresh = [''ns1'' \<mapsto> Storage \<lparr>version = ''1.0.0'',
                    locks = \<lparr>own_locks = [], prototype_lock = None\<rparr>, data = []\<rparr>]"
  by (simp add: page_fresh_def options_ns1_def constructor_simps)

lemmas evaluation_simps =
  getSharedState_def ensureSharedState_def window_get_def object_prototype_members_def
  new_storage_def lookup_lock_def assign_lock_def delete_lock_def enumerate_locks_def
  still_enumerable_def inherited_from_lock_def js_put_def js_keys_def js_delete_def
  js_truthy_def is_array_index_def is_digit_def isLockStale_def nullish_def foreign_read_def

lemma page_locked_eq:
  "page_locked = [''ns1'' \<mapsto> Storage \<lparr>version = ''1.0.0'',
       locks = \<lparr>own_locks =
                  [(''x'', \<lparr>ownerId = Some ''instance_1000_k3j2h1g0f'', timestamp = 1002,
                             metadata = None\<rparr>)],
                prototype_lock = None\<rparr>,
       data = []\<rparr>]"
  by (simp add: page_locked_def page_fresh_eq instance1_eq acquireLock_def evaluation_simps)

lemma page_three_eq:
  "page_three = [''ns1'' \<mapsto> Storage \<lparr>version = ''1.0.0'',
       locks = \<lparr>own_locks =
                  [(''a'', \<lparr>ownerId = Some ''instance_1000_k3j2h1g0f'', timestamp = 1002, metadata = None\<rparr>),
                   (''b'', \<lparr>ownerId = Some ''instance_1001_z9y8x7w6v'', timestamp = 1050, metadata = None\<rparr>),
                   (''c'', \<lparr>ownerId = Some ''instance_1000_k3j2h1g0f'', timestamp = 1100, metadata = None\<rparr>)],
                prototype_lock = None\<rparr>,
       data = []\<rparr>]"
  by (simp add: page_three_def page_fresh_eq instance1_eq instance2_eq acquireLock_def
        evaluation_simps)

lemma page_proto_eq:
  "page_proto = [''ns1'' \<mapsto> Storage \<lparr>version = ''1.0.0'',
       locks = \<lparr>own_locks = [],
                prototype_lock =
                  Some \<lparr>ownerId = Some ''instance_1000_k3j2h1g0f'', timestamp = 1002,
                        metadata = None\<rparr>\<rparr>,
       data = []\<rparr>]"
  by (simp add: page_proto_def page_fresh_eq instance1_eq acquireLock_def evaluation_simps)

lemma instance_toString_eq:
  "instance_toString = \<lparr>m_namespace = ''toString'', m_version = ''1.0.0'',
                         m_staleLockTimeout = 60000, m_instanceId = ''instance_1000_k3j2h1g0f''\<rparr>"
  by (simp add: instance_toString_def constructor_simps)

lemma page_toString_eq: "page_toString = Map.empty"
  by (simp add: page_toString_def constructor_simps)

lemma instance_legacy_eq:
  "instance_legacy = \<lparr>m_namespace = ''__WME_SDK_PLUS_SELECTION_MODE__'', m_version = ''1.0.0'',
                       m_staleLockTimeout = 60000, m_instanceId = ''instance_1001_z9y8x7w6v''\<rparr>"
  by (simp add: instance_legacy_def constructor_simps)

lemma page_legacy_eq:
  "page_legacy = [''__WME_SDK_PLUS_SELECTION_MODE__'' \<mapsto> Foreign legacy_record]"
  by (simp add: page_legacy_def constructor_simps legacy_record_def)

lemma instance_empty_eq:
  "instance_empty = \<lparr>m_namespace = ''__WME_SDK_PLUS_SHARED_STATE__'', m_version = ''1.0.0'',
                      m_staleLockTimeout = 60000, m_instanceId = ''instance_1000_k3j2h1g0f''\<rparr>"
  by (simp add: instance_empty_def options_empty_def constructor_simps)

lemma instance_default_eq:
  "instance_default = \<lparr>m_namespace = ''__WME_SDK_PLUS_SHARED_STATE__'', m_version = ''1.0.0'',
                        m_staleLockTimeout = 60000, m_instanceId = ''instance_1001_z9y8x7w6v''\<rparr>"
  by (simp add: instance_default_def options_default_def constructor_simps)

lemma page_default_eq:
  "page_default = [''__WME_SDK_PLUS_SHARED_STATE__'' \<mapsto> Storage \<lparr>version = ''1.0.0'',
                      locks = \<lparr>own_locks = [], prototype_lock = None\<rparr>, data = []\<rparr>]"
  by (simp add: page_default_def options_default_def options_empty_def constructor_simps)

lemmas scenario_simps =
  instance1_eq instance2_eq instance3_eq page_fresh_eq page_locked_eq page_three_eq
  page_proto_eq instance_toString_eq page_toString_eq instance_legacy_eq page_legacy_eq
  instance_empty_eq instance_default_eq page_default_eq evaluation_simps









subsection \<open>The end-to-end scenario\<close>

text \<open>
  Namespace \<open>ns1\<close>, timeout 100 ms: \<open>instance1\<close> acquires \<open>x\<close>; \<open>instance2\<close> fails at
  once and is told the owner; 150 ms later \<open>instance2\<close> takes the stale lock over; the
  release by \<open>instance1\<close> then returns false.
\<close>

lemma end_to_end_scenario:
  "fst (acquireLock instance1 1002 ''x'' None page_fresh)
     = Inr \<lparr>success = True, currentOwnerId = None, wasStale = False\<rparr>
   \<and> fst (acquireLock instance2 1002 ''x'' None page_locked)
     = Inr \<lparr>success = False, currentOwnerId = Some (getInstanceId instance1), wasStale = False\<rparr>
   \<and> fst (acquireLock instance2 1152 ''x'' None page_locked)
     = Inr \<lparr>success = True, currentOwnerId = None, wasStale = True\<rparr>
   \<and> fst (releaseLock instance1 ''x'' (snd (acquireLock instance2 1152 ''x'' None page_locked)))
     = Inr False"
  by (simp add: scenario_simps acquireLock_def releaseLock_def getInstanceId_def)

subsection \<open>The deleting loops on a plain lock object\<close>

text \<open>
  On a lock object whose prototype has not been replaced, the loops of
  \<^verbatim>\<open>releaseAllLocks\<close> and \<^verbatim>\<open>cleanupStaleLocks\<close> do not throw: they remove the locks
  that pass their test, count them, and keep the others in place.
\<close>

lemma entry_unique:
  "distinct (map fst ls) \<Longrightarrow> map_of ls k = Some l \<Longrightarrow> (k, l') \<in> set ls \<Longrightarrow> l' = l"
  by auto

lemma visit_absent:
  assumes "map_of ls k = None"
  shows "filter (\<lambda>(k', l'). \<not> ((k' = k \<or> k' \<in> S) \<and> P l')) ls
           = filter (\<lambda>(k', l'). \<not> (k' \<in> S \<and> P l')) ls"
    and "filter (\<lambda>(k', l'). (k' = k \<or> k' \<in> S) \<and> P l') ls
           = filter (\<lambda>(k', l'). k' \<in> S \<and> P l') ls"
proof -
  have notin: "k \<notin> fst ` set ls" using assms by (simp add: map_of_eq_None_iff)
  show "filter (\<lambda>(k', l'). \<not> ((k' = k \<or> k' \<in> S) \<and> P l')) ls
           = filter (\<lambda>(k', l'). \<not> (k' \<in> S \<and> P l')) ls"
    using notin by (intro filter_cong) (auto simp: image_iff)
  show "filter (\<lambda>(k', l'). (k' = k \<or> k' \<in> S) \<and> P l') ls
           = filter (\<lambda>(k', l'). k' \<in> S \<and> P l') ls"
    using notin by (intro filter_cong) (auto simp: image_iff)
qed

lemma visit_keep:
  assumes "distinct (map fst ls)" and "map_of ls k = Some l" and "\<not> P l"
  shows "filter (\<lambda>(k', l'). \<not> ((k' = k \<or> k' \<in> S) \<and> P l')) ls
           = filter (\<lambda>(k', l'). \<not> (k' \<in> S \<and> P l')) ls"
    and "filter (\<lambda>(k', l'). (k' = k \<or> k' \<in> S) \<and> P l') ls
           = filter (\<lambda>(k', l'). k' \<in> S \<and> P l') ls"
proof -
  have u: "\<And>l'. (k, l') \<in> set ls \<Longrightarrow> l' = l"
    using entry_unique[OF assms(1,2)] .
  show "filter (\<lambda>(k', l'). \<not> ((k' = k \<or> k' \<in> S) \<and> P l')) ls
           = filter (\<lambda>(k', l'). \<not> (k' \<in> S \<and> P l')) ls"
    using u assms(3) by (intro filter_cong) auto
  show "filter (\<lambda>(k', l'). (k' = k \<or> k' \<in> S) \<and> P l') ls
           = filter (\<lambda>(k', l'). k' \<in> S \<and> P l') ls"
    using u assms(3) by (intro filter_cong) auto
qed

lemma visit_delete:
  assumes "distinct (map fst ls)" and "map_of ls k = Some l" and "P l"
  shows "filter (\<lambda>(k', l'). \<not> (k' \<in> S \<and> P l')) (js_delete k ls)
           = filter (\<lambda>(k', l'). \<not> ((k' = k \<or> k' \<in> S) \<and> P l')) ls"
proof -
  have u: "\<And>l'. (k, l') \<in> set ls \<Longrightarrow> l' = l"
    using entry_unique[OF assms(1,2)] .
  show ?thesis
    unfolding js_delete_def AList.delete_eq filter_filter
    using u assms(3) by (intro filter_cong) auto
qed

lemma visit_count:
  "distinct (map fst ls) \<Longrightarrow> map_of ls k = Some l \<Longrightarrow> P l \<Longrightarrow>
   length (filter (\<lambda>(k', l'). (k' = k \<or> k' \<in> S) \<and> P l') ls) =
   Suc (length (filter (\<lambda>(k', l'). k' \<in> S \<and> P l') (js_delete k ls)))"
proof (induction ls)
  case Nil then show ?case by simp
next
  case (Cons a ls)
  obtain k0 l0 where a: "a = (k0, l0)" by (cases a)
  show ?case
  proof (cases "k0 = k")
    case True
    with Cons.prems a have l0: "l0 = l" and notin: "k \<notin> fst ` set ls" by auto
    have "filter (\<lambda>(k', l'). (k' = k \<or> k' \<in> S) \<and> P l') ls = filter (\<lambda>(k', l'). k' \<in> S \<and> P l') ls"
      using notin by (intro filter_cong) (auto simp: image_iff)
    then show ?thesis using a True l0 notin Cons.prems(3) by (simp add: js_delete_def)
  next
    case False
    with Cons a show ?thesis by (auto simp: js_delete_def)
  qed
qed

lemma distinct_js_delete: "distinct (map fst ls) \<Longrightarrow> distinct (map fst (js_delete k ls))"
  by (simp add: js_delete_def distinct_delete)

lemma proto_notin_js_delete:
  "''__proto__'' \<notin> fst ` set ls \<Longrightarrow> ''__proto__'' \<notin> fst ` set (js_delete k ls)"
  by (auto simp: js_delete_def AList.delete_eq)

lemma plain_visit:
  assumes "''__proto__'' \<notin> fst ` set own"
  shows "still_enumerable \<lparr>own_locks = own, prototype_lock = None\<rparr> k
           = (map_of own k \<noteq> None)"
    and "map_of own k = Some l \<Longrightarrow>
           lookup_lock \<lparr>own_locks = own, prototype_lock = None\<rparr> k = MLock l"
proof -
  show "still_enumerable \<lparr>own_locks = own, prototype_lock = None\<rparr> k = (map_of own k \<noteq> None)"
    by (simp add: still_enumerable_def js_keys_def map_of_eq_None_iff)
  assume s: "map_of own k = Some l"
  then have "k \<in> fst ` set own" by (metis map_of_eq_None_iff option.distinct(1))
  with assms have "k \<noteq> ''__proto__''" by blast
  with s show "lookup_lock \<lparr>own_locks = own, prototype_lock = None\<rparr> k = MLock l"
    by (simp add: lookup_lock_def)
qed

lemma releaseAllLocks_loop_plain:
  "distinct (map fst own) \<Longrightarrow> ''__proto__'' \<notin> fst ` set own \<Longrightarrow>
   releaseAllLocks_loop m ks \<lparr>own_locks = own, prototype_lock = None\<rparr> n =
     (Inr (n + length (filter (\<lambda>(k, l). k \<in> set ks \<and> ownerId l = Some (m_instanceId m)) own)),
      \<lparr>own_locks = filter (\<lambda>(k, l). \<not> (k \<in> set ks \<and> ownerId l = Some (m_instanceId m))) own,
       prototype_lock = None\<rparr>)"
proof (induction ks arbitrary: own n)
  case Nil then show ?case by simp
next
  case (Cons k ks)
  let ?P = "\<lambda>l. ownerId l = Some (m_instanceId m)"
  note pv = plain_visit[OF Cons.prems(2)]
  show ?case
  proof (cases "map_of own k")
    case None
    show ?thesis
      using None pv(1)[of k] Cons.IH[OF Cons.prems] visit_absent[OF None, of "set ks" ?P]
      by simp
  next
    case (Some l)
    have k: "k \<noteq> ''__proto__''"
      using Some Cons.prems(2) by (metis map_of_eq_None_iff option.distinct(1))
    show ?thesis
    proof (cases "?P l")
      case True
      show ?thesis
        using Some True k pv(1)[of k] pv(2)[OF Some]
          Cons.IH[OF distinct_js_delete[OF Cons.prems(1)] proto_notin_js_delete[OF Cons.prems(2)]]
          visit_delete[OF Cons.prems(1) Some, of ?P "set ks"]
          visit_count[OF Cons.prems(1) Some, of ?P "set ks"]
        by (simp add: delete_lock_def)
    next
      case False
      show ?thesis
        using Some False pv(1)[of k] pv(2)[OF Some] Cons.IH[OF Cons.prems]
          visit_keep[OF Cons.prems(1) Some, of ?P "set ks"]
        by simp
    qed
  qed
qed

lemma cleanupStaleLocks_loop_plain:
  "distinct (map fst own) \<Longrightarrow> ''__proto__'' \<notin> fst ` set own \<Longrightarrow>
   cleanupStaleLocks_loop m now ks \<lparr>own_locks = own, prototype_lock = None\<rparr> n =
     (Inr (n + length (filter (\<lambda>(k, l). k \<in> set ks \<and> isLockStale m now l) own)),
      \<lparr>own_locks = filter (\<lambda>(k, l). \<not> (k \<in> set ks \<and> isLockStale m now l)) own,
       prototype_lock = None\<rparr>)"
proof (induction ks arbitrary: own n)
  case Nil then show ?case by simp
next
  case (Cons k ks)
  let ?P = "isLockStale m now"
  note pv = plain_visit[OF Cons.prems(2)]
  show ?case
  proof (cases "map_of own k")
    case None
    show ?thesis
      using None pv(1)[of k] Cons.IH[OF Cons.prems] visit_absent[OF None, of "set ks" ?P]
      by simp
  next
    case (Some l)
    have k: "k \<noteq> ''__proto__''"
      using Some Cons.prems(2) by (metis map_of_eq_None_iff option.distinct(1))
    show ?thesis
    proof (cases "?P l")
      case True
      show ?thesis
        using Some True k pv(1)[of k] pv(2)[OF Some]
          Cons.IH[OF distinct_js_delete[OF Cons.prems(1)] proto_notin_js_delete[OF Cons.prems(2)]]
          visit_delete[OF Cons.prems(1) Some, of ?P "set ks"]
          visit_count[OF Cons.prems(1) Some, of ?P "set ks"]
        by (simp add: delete_lock_def)
    next
      case False
      show ?thesis
        using Some False pv(1)[of k] pv(2)[OF Some] Cons.IH[OF Cons.prems]
          visit_keep[OF Cons.prems(1) Some, of ?P "set ks"]
        by simp
    qed
  qed
qed

lemma releaseAllLocks_plain:
  assumes "getSharedState m w = (Storage state, w1)"
      and "locks state = \<lparr>own_locks = own, prototype_lock = None\<rparr>"
      and "distinct (js_keys own)" and "''__proto__'' \<notin> set (js_keys own)"
  shows "releaseAllLocks m w =
           (Inr (length (filter (\<lambda>(name, l). ownerId l = Some (m_instanceId m)) own)),
            w1(m_namespace m \<mapsto> Storage (state\<lparr>locks :=
                 \<lparr>own_locks = filter (\<lambda>(name, l). ownerId l \<noteq> Some (m_instanceId m)) own,
                  prototype_lock = None\<rparr>\<rparr>)))"
proof -
  let ?mine = "\<lambda>l. ownerId l = Some (m_instanceId m)"
  have d: "distinct (map fst own)" and p: "''__proto__'' \<notin> fst ` set own"
    using assms(3,4) by (simp_all add: js_keys_def)
  have keys: "filter (\<lambda>(k, l). k \<in> set (js_keys own) \<and> ?mine l) own = filter (\<lambda>(k, l). ?mine l) own"
    by (intro filter_cong refl) (force simp: js_keys_def)
  have nkeys: "filter (\<lambda>(k, l). \<not> (k \<in> set (js_keys own) \<and> ?mine l)) own
                 = filter (\<lambda>(k, l). \<not> ?mine l) own"
    by (intro filter_cong refl) (force simp: js_keys_def)
  show ?thesis
    using assms(1,2) releaseAllLocks_loop_plain[OF d p, of m "js_keys own" 0] keys nkeys
    by (simp add: releaseAllLocks_def enumerate_locks_def)
qed

lemma cleanupStaleLocks_plain:
  assumes "getSharedState m w = (Storage state, w1)"
      and "locks state = \<lparr>own_locks = own, prototype_lock = None\<rparr>"
      and "distinct (js_keys own)" and "''__proto__'' \<notin> set (js_keys own)"
  shows "cleanupStaleLocks m now w =
           (Inr (length (filter (\<lambda>(name, l). isLockStale m now l) own)),
            w1(m_namespace m \<mapsto> Storage (state\<lparr>locks :=
                 \<lparr>own_locks = filter (\<lambda>(name, l). \<not> isLockStale m now l) own,
                  prototype_lock = None\<rparr>\<rparr>)))"
proof -
  let ?stale = "isLockStale m now"
  have d: "distinct (map fst own)" and p: "''__proto__'' \<notin> fst ` set own"
    using assms(3,4) by (simp_all add: js_keys_def)
  have keys: "filter (\<lambda>(k, l). k \<in> set (js_keys own) \<and> ?stale l) own = filter (\<lambda>(k, l). ?stale l) own"
    by (intro filter_cong refl) (force simp: js_keys_def)
  have nkeys: "filter (\<lambda>(k, l). \<not> (k \<in> set (js_keys own) \<and> ?stale l)) own
                 = filter (\<lambda>(k, l). \<not> ?stale l) own"
    by (intro filter_cong refl) (force simp: js_keys_def)
  show ?thesis
    using assms(1,2) cleanupStaleLocks_loop_plain[OF d p, of m now "js_keys own" 0] keys nkeys
    by (simp add: cleanupStaleLocks_def enumerate_locks_def)
qed

subsection \<open>Acquiring and releasing under an ordinary name\<close>

lemma acquireLock_available:
  assumes "getSharedState m w = (Storage state, w1)"
      and "lookup_lock (locks state) lockName = MUndefined
           \<or> (\<exists>l. lookup_lock (locks state) lockName = MLock l \<and> isLockStale m now l)"
  shows "acquireLock m now lockName md w =
           (Inr \<lparr>success = True, currentOwnerId = None,
                 wasStale = (\<exists>l. lookup_lock (locks state) lockName = MLock l \<and> isLockStale m now l)\<rparr>,
            w1(m_namespace m \<mapsto> Storage (state\<lparr>locks :=
                 assign_lock lockName
                   \<lparr>ownerId = Some (m_instanceId m), timestamp = now, metadata = md\<rparr>
                   (locks state)\<rparr>)))"
  using assms by (auto simp: acquireLock_def Let_def)

lemma releaseLock_stored:
  assumes "getSharedState m w = (Storage state, w1)"
      and "lookup_lock (locks state) lockName = MLock l"
  shows "releaseLock m lockName w =
           (if ownerId l = Some (m_instanceId m)
            then (Inr True,
                  w(m_namespace m \<mapsto> Storage (state\<lparr>locks := delete_lock lockName (locks state)\<rparr>)))
            else (Inr False, w))"
  using assms stored_lock_namespace[OF assms] by (simp add: releaseLock_def)

lemma releaseLock_absent:
  assumes "getSharedState m w = (Storage state, w1)"
      and "lookup_lock (locks state) lockName = MUndefined"
  shows "releaseLock m lockName w = (Inr False, w1)"
  using assms by (simp add: releaseLock_def)

section \<open>Stale locks and the three lock queries\<close>

text \<open>
  C1, as amended.  When the lock stored under a name is stale, \<open>isLockHeld\<close> returns false
  and \<open>getLockInfo\<close> returns null.  \<open>hasLock\<close> does not look at the lock's age: it
  returns true exactly when the stored owner id is this instance's id, so the recorded
  owner of a stale lock is still told that it has the lock.  None of the three throws or
  changes the window.
\<close>

theorem stale_lock_queries:
  assumes "getSharedState m w = (Storage state, w1)"
      and "lookup_lock (locks state) lockName = MLock l"
      and "isLockStale m now l"
  shows "isLockHeld m now lockName w = (Inr False, w)
       \<and> getLockInfo m now lockName w = (Inr None, w)
       \<and> hasLock m lockName w = (Inr (ownerId l = Some (m_instanceId m)), w)"
  using assms stored_lock_namespace[OF assms(1,2)]
  by (simp add: isLockHeld_def getLockInfo_def hasLock_def)

theorem stale_lock_queries_witness:
  "getSharedState instance1 page_locked
     = (Storage \<lparr>version = ''1.0.0'',
          locks = \<lparr>own_locks =
                     [(''x'', \<lparr>ownerId = Some (m_instanceId instance1), timestamp = 1002,
                                metadata = None\<rparr>)],
                   prototype_lock = None\<rparr>,
          data = []\<rparr>, page_locked)
   \<and> isLockStale instance1 2000 \<lparr>ownerId = Some (m_instanceId instance1), timestamp = 1002, metadata = None\<rparr>
   \<and> isLockHeld instance1 2000 ''x'' page_locked = (Inr False, page_locked)
   \<and> getLockInfo instance1 2000 ''x'' page_locked = (Inr None, page_locked)
   \<and> hasLock instance1 ''x'' page_locked = (Inr True, page_locked)"
proof -
  let ?l = "\<lparr>ownerId = Some (m_instanceId instance1), timestamp = 1002, metadata = None\<rparr>"
  let ?st = "\<lparr>version = ''1.0.0'',
               locks = \<lparr>own_locks = [(''x'', ?l)], prototype_lock = None\<rparr>, data = []\<rparr>"
  have h1: "getSharedState instance1 page_locked = (Storage ?st, page_locked)"
    by (simp add: scenario_simps)
  have h2: "lookup_lock (locks ?st) ''x'' = MLock ?l"
    by (simp add: lookup_lock_def)
  have h3: "isLockStale instance1 2000 ?l"
    by (simp add: scenario_simps)
  show ?thesis using h1 h3 stale_lock_queries[OF h1 h2 h3] by simp
qed

text \<open>
  The claim as first stated fails for \<open>hasLock\<close>: at time 2000 the lock \<open>x\<close> that
  \<open>instance1\<close> took at 1002 is stale (timeout 100), and \<open>hasLock\<close> still answers true.
\<close>

theorem hasLock_stale_counterexample:
  "lookup_lock
     (locks \<lparr>version = ''1.0.0'',
          locks = \<lparr>own_locks =
                     [(''x'', \<lparr>ownerId = Some (m_instanceId instance1), timestamp = 1002,
                                metadata = None\<rparr>)],
                   prototype_lock = None\<rparr>,
          data = []\<rparr>) ''x''
     = MLock \<lparr>ownerId = Some (m_instanceId instance1), timestamp = 1002, metadata = None\<rparr>
   \<and> fst (getSharedState instance1 page_locked)
     = Storage \<lparr>version = ''1.0.0'',
          locks = \<lparr>own_locks =
                     [(''x'', \<lparr>ownerId = Some (m_instanceId instance1), timestamp = 1002,
                                metadata = None\<rparr>)],
                   prototype_lock = None\<rparr>,
          data = []\<rparr>
   \<and> isLockStale instance1 2000 \<lparr>ownerId = Some (m_instanceId instance1), timestamp = 1002, metadata = None\<rparr>
   \<and> fst (hasLock instance1 ''x'' page_locked) = Inr True"
  by (simp add: scenario_simps hasLock_def)

section \<open>Acquiring a lock\<close>

text \<open>
  C2, at the inputs where the code fails it.  The constructor leaves alone whatever
  truthy value the window already holds under the namespace, and \<open>acquireLock\<close> then reads
  \<^verbatim>\<open>state.locks[lockName]\<close> from it.  A manager on the namespace \<^verbatim>\<open>toString\<close> finds
  the function every object inherits; a manager on \<^verbatim>\<open>__WME_SDK_PLUS_SELECTION_MODE__\<close>
  finds the record of the older selection state manager.  Neither has a \<^verbatim>\<open>locks\<close>
  member, no lock is stored under any name, and \<open>acquireLock\<close> throws \<^verbatim>\<open>TypeError\<close> where
  the claim has it store a lock and return success.
\<close>

theorem acquireLock_foreign_namespace:
  "acquireLock instance_toString 1002 ''x'' None page_toString = (Inl TypeError, page_toString)
   \<and> acquireLock instance_legacy 1002 ''selectionMode'' None page_legacy
       = (Inl TypeError, page_legacy)"
  by (simp add: scenario_simps acquireLock_def legacy_record_def)

text \<open>
  C3.  If the stored lock exists, has an owner and is not stale, \<open>acquireLock\<close> returns a
  failure result naming the stored owner and leaves the whole window, all locks and all
  data, as it was; it does not throw.  A lock has an owner when its \<open>ownerId\<close> passes the
  test the method makes, that is, when it is a non-empty string; every id an instance
  generates starts with \<open>instance_\<close>.
\<close>

theorem acquireLock_contended:
  assumes "getSharedState m w = (Storage state, w1)"
      and "lookup_lock (locks state) lockName = MLock l"
      and "ownerId l = Some owner" and "owner \<noteq> []"
      and "\<not> isLockStale m now l"
  shows "acquireLock m now lockName md w =
           (Inr \<lparr>success = False, currentOwnerId = Some owner, wasStale = False\<rparr>, w)"
  using assms stored_lock_namespace[OF assms(1,2)]
  by (simp add: acquireLock_def js_truthy_def)

theorem acquireLock_contended_witness:
  "getSharedState instance2 page_locked
     = (Storage \<lparr>version = ''1.0.0'',
          locks = \<lparr>own_locks =
                     [(''x'', \<lparr>ownerId = Some (m_instanceId instance1), timestamp = 1002,
                                metadata = None\<rparr>)],
                   prototype_lock = None\<rparr>,
          data = []\<rparr>, page_locked)
   \<and> m_instanceId instance1 \<noteq> []
   \<and> \<not> isLockStale instance2 1003 \<lparr>ownerId = Some (m_instanceId instance1), timestamp = 1002, metadata = None\<rparr>
   \<and> acquireLock instance2 1003 ''x'' None page_locked
       = (Inr \<lparr>success = False, currentOwnerId = Some (m_instanceId instance1), wasStale = False\<rparr>,
          page_locked)"
proof -
  let ?l = "\<lparr>ownerId = Some (m_instanceId instance1), timestamp = 1002, metadata = None\<rparr>"
  let ?st = "\<lparr>version = ''1.0.0'',
               locks = \<lparr>own_locks = [(''x'', ?l)], prototype_lock = None\<rparr>, data = []\<rparr>"
  have h0: "getSharedState instance2 page_locked = (Storage ?st, page_locked)"
    by (simp add: scenario_simps)
  have h1: "lookup_lock (locks ?st) ''x'' = MLock ?l"
    by (simp add: lookup_lock_def)
  have h2: "ownerId ?l = Some (m_instanceId instance1)" by simp
  have h3: "m_instanceId instance1 \<noteq> []" by (simp add: scenario_simps)
  have h4: "\<not> isLockStale instance2 1003 ?l" by (simp add: scenario_simps)
  show ?thesis using h0 h3 h4 acquireLock_contended[OF h0 h1 h2 h3 h4, of None] by simp
qed

text \<open>
  C10.  An instance that owns a stored lock that is not stale fails to acquire it again:
  the result names the instance itself as the current owner, and the window, so the
  stored timestamp too, is unchanged.  The lock therefore still goes stale: at every later
  time more than the timeout after that timestamp it is reported as held by no one.
\<close>

theorem acquireLock_not_reentrant:
  assumes "m = fst (SharedStateManager_new options t0 rnd w0)"
      and "getSharedState m w = (Storage state, w1)"
      and "lookup_lock (locks state) lockName = MLock l"
      and "ownerId l = Some (m_instanceId m)"
      and "\<not> isLockStale m now l"
  shows "acquireLock m now lockName md w =
           (Inr \<lparr>success = False, currentOwnerId = Some (m_instanceId m), wasStale = False\<rparr>, w)
       \<and> getSharedState m (snd (acquireLock m now lockName md w)) = (Storage state, w)
       \<and> (\<forall>later. later - timestamp l > m_staleLockTimeout m \<longrightarrow>
             isLockHeld m later lockName (snd (acquireLock m now lockName md w)) = (Inr False, w)
           \<and> getLockInfo m later lockName (snd (acquireLock m now lockName md w)) = (Inr None, w))"
proof -
  have st: "w (m_namespace m) = Some (Storage state) \<and> w1 = w"
    using stored_lock_namespace[OF assms(2,3)] .
  have ne: "m_instanceId m \<noteq> []" using assms(1) instanceId_nonempty by simp
  have acq: "acquireLock m now lockName md w =
           (Inr \<lparr>success = False, currentOwnerId = Some (m_instanceId m), wasStale = False\<rparr>, w)"
    using st assms(2,3,4,5) ne by (simp add: acquireLock_def js_truthy_def)
  show ?thesis using acq st assms(2,3,4)
    by (simp add: isLockHeld_def getLockInfo_def isLockStale_def)
qed

theorem acquireLock_not_reentrant_witness:
  "instance1 = fst (SharedStateManager_new options_ns1 1000 ''k3j2h1g0f'' Map.empty)
   \<and> getSharedState instance1 page_locked
     = (Storage \<lparr>version = ''1.0.0'',
          locks = \<lparr>own_locks =
                     [(''x'', \<lparr>ownerId = Some (m_instanceId instance1), timestamp = 1002,
                                metadata = None\<rparr>)],
                   prototype_lock = None\<rparr>,
          data = []\<rparr>, page_locked)
   \<and> \<not> isLockStale instance1 1050 \<lparr>ownerId = Some (m_instanceId instance1), timestamp = 1002, metadata = None\<rparr>
   \<and> acquireLock instance1 1050 ''x'' None page_locked
       = (Inr \<lparr>success = False, currentOwnerId = Some (m_instanceId instance1), wasStale = False\<rparr>,
          page_locked)
   \<and> isLockHeld instance1 1200 ''x'' (snd (acquireLock instance1 1050 ''x'' None page_locked))
       = (Inr False, page_locked)
   \<and> getLockInfo instance1 1200 ''x'' (snd (acquireLock instance1 1050 ''x'' None page_locked))
       = (Inr None, page_locked)"
proof -
  let ?l = "\<lparr>ownerId = Some (m_instanceId instance1), timestamp = 1002, metadata = None\<rparr>"
  let ?st = "\<lparr>version = ''1.0.0'',
               locks = \<lparr>own_locks = [(''x'', ?l)], prototype_lock = None\<rparr>, data = []\<rparr>"
  have h0: "instance1 = fst (SharedStateManager_new options_ns1 1000 ''k3j2h1g0f'' Map.empty)"
    by (rule instance1_def)
  have g: "getSharedState instance1 page_locked = (Storage ?st, page_locked)"
    by (simp add: scenario_simps)
  have h1: "lookup_lock (locks ?st) ''x'' = MLock ?l"
    by (simp add: lookup_lock_def)
  have h2: "ownerId ?l = Some (m_instanceId instance1)" by simp
  have h3: "\<not> isLockStale instance1 1050 ?l" by (simp add: scenario_simps)
  have late: "(1200::int) - timestamp ?l > m_staleLockTimeout instance1"
    by (simp add: scenario_simps)
  note inst = acquireLock_not_reentrant[OF h0 g h1 h2 h3, of None]
  have a: "acquireLock instance1 1050 ''x'' None page_locked
       = (Inr \<lparr>success = False, currentOwnerId = Some (m_instanceId instance1), wasStale = False\<rparr>,
          page_locked)"
    using conjunct1[OF inst] .
  have b:
    "isLockHeld instance1 1200 ''x'' (snd (acquireLock instance1 1050 ''x'' None page_locked))
       = (Inr False, page_locked)
     \<and> getLockInfo instance1 1200 ''x'' (snd (acquireLock instance1 1050 ''x'' None page_locked))
       = (Inr None, page_locked)"
    using conjunct2[OF conjunct2[OF inst]] late by blast
  show ?thesis using h0 g h3 a b by blast
qed

section \<open>Releasing locks\<close>

text \<open>
  C4, at the input where the code fails it.  \<open>instance1\<close> has acquired the lock named
  \<^verbatim>\<open>__proto__\<close>: the assignment made the lock object the prototype of
  \<^verbatim>\<open>state.locks\<close> and created no own property.  \<open>releaseLock\<close> finds the lock, sees the
  instance's own id, and runs \<^verbatim>\<open>delete state.locks['__proto__']\<close>, which removes
  nothing.  It returns true and the window is what it was: the lock is still stored, and
  \<open>hasLock\<close> still answers true, where the claim has the lock deleted.  On a namespace
  under which the window holds the record of the older selection state manager, no lock
  is stored and \<open>releaseLock\<close> throws \<^verbatim>\<open>TypeError\<close>, where the claim has it return
  false.
\<close>

theorem releaseLock_proto_kept:
  "fst (acquireLock instance1 1002 ''__proto__'' None page_fresh)
     = Inr \<lparr>success = True, currentOwnerId = None, wasStale = False\<rparr>
   \<and> releaseLock instance1 ''__proto__'' page_proto = (Inr True, page_proto)
   \<and> hasLock instance1 ''__proto__'' page_proto = (Inr True, page_proto)
   \<and> getLockInfo instance1 1003 ''__proto__'' page_proto
       = (Inr (Some \<lparr>ownerId = Some (m_instanceId instance1), timestamp = 1002, metadata = None\<rparr>),
          page_proto)
   \<and> releaseLock instance_legacy ''selectionMode'' page_legacy = (Inl TypeError, page_legacy)"
  by (simp add: scenario_simps acquireLock_def releaseLock_def hasLock_def getLockInfo_def
        legacy_record_def)

text \<open>
  C5, at the input where the code fails it.  With the lock \<^verbatim>\<open>__proto__\<close> of
  \<open>instance1\<close> as the prototype of \<^verbatim>\<open>state.locks\<close>, the loop of \<open>releaseAllLocks\<close> never
  visits \<^verbatim>\<open>__proto__\<close>; it visits the inherited keys \<^verbatim>\<open>ownerId\<close>, \<^verbatim>\<open>timestamp\<close> and
  \<^verbatim>\<open>metadata\<close>, and at the last, whose value is \<^verbatim>\<open>undefined\<close>, reading \<^verbatim>\<open>.ownerId\<close>
  throws \<^verbatim>\<open>TypeError\<close>.  Nothing is released and no count is returned: the instance still
  has its lock, where the claim has it removed and counted.
\<close>

theorem releaseAllLocks_proto_throws:
  "enumerate_locks (locks \<lparr>version = ''1.0.0'',
       locks = \<lparr>own_locks = [],
                prototype_lock =
                  Some \<lparr>ownerId = Some (m_instanceId instance1), timestamp = 1002, metadata = None\<rparr>\<rparr>,
       data = []\<rparr>) = [''ownerId'', ''timestamp'', ''metadata'']
   \<and> releaseAllLocks instance1 page_proto = (Inl TypeError, page_proto)
   \<and> fst (hasLock instance1 ''__proto__'' (snd (releaseAllLocks instance1 page_proto))) = Inr True"
  by (simp add: scenario_simps releaseAllLocks_def hasLock_def)

text \<open>
  C6, at the input where the code fails it.  At time 2000 the lock \<^verbatim>\<open>__proto__\<close> taken
  at 1002 is stale (timeout 100).  The loop of \<open>cleanupStaleLocks\<close> does not visit it; it
  visits the inherited keys, finds the owner string and the timestamp number not stale,
  and throws \<^verbatim>\<open>TypeError\<close> on reading \<^verbatim>\<open>.timestamp\<close> of the undefined metadata.  The
  stale lock is neither removed nor counted.
\<close>

theorem cleanupStaleLocks_proto_throws:
  "isLockStale instance2 2000 \<lparr>ownerId = Some (m_instanceId instance1), timestamp = 1002, metadata = None\<rparr>
   \<and> cleanupStaleLocks instance2 2000 page_proto = (Inl TypeError, page_proto)
   \<and> fst (hasLock instance1 ''__proto__'' (snd (cleanupStaleLocks instance2 2000 page_proto)))
       = Inr True"
  by (simp add: scenario_simps cleanupStaleLocks_def hasLock_def)

section \<open>Shared data next to the locks\<close>



section \<open>Namespace isolation\<close>

text \<open>
  C8, as amended.  Take two managers whose effective namespaces differ, the effective
  namespace being what \<open>getNamespace\<close> returns: the namespace option, or the default
  \<open>__WME_SDK_PLUS_SHARED_STATE__\<close> when the option is omitted or the empty string.  Let
  each of the two namespaces hold, when its manager looks, a storage object of its own.
  Then no lock or data call made through the first is observable through the second:
  every call through the second returns the same result, and leaves the same value under
  its namespace, whether or not the call through the first came before, and the call
  through the first leaves the second's storage as it was.  In particular a key set under
  the first namespace reads as the default value under the second when the second has no
  such key and the key is not the name of a member every object inherits, and a lock
  acquired under the first is reported as not held and is acquired under the second when
  the second reads nothing under that lock name.
\<close>

theorem namespace_isolation:
  assumes "getNamespace ma \<noteq> getNamespace mb"
      and "getSharedState ma w = (Storage sa, wa)"
      and "getSharedState mb w = (Storage sb, wb)"
  shows "fst (invoke mb tb cb (snd (invoke ma ta ca w))) = fst (invoke mb tb cb w)
       \<and> snd (invoke mb tb cb (snd (invoke ma ta ca w))) (getNamespace mb)
           = snd (invoke mb tb cb w) (getNamespace mb)
       \<and> fst (getSharedState mb (snd (invoke ma ta ca w))) = Storage sb
       \<and> (map_of (data sb) key = None \<and> key \<notin> set object_prototype_members \<longrightarrow>
            fst (getSharedData mb key defaultValue (snd (setSharedData ma key val w)))
              = Inr defaultValue)
       \<and> (lookup_lock (locks sb) lockName = MUndefined \<longrightarrow>
            fst (isLockHeld mb tb lockName (snd (acquireLock ma ta lockName md w))) = Inr False
          \<and> fst (acquireLock mb tb lockName md' (snd (acquireLock ma ta lockName md w)))
              = Inr \<lparr>success = True, currentOwnerId = None, wasStale = False\<rparr>)"
proof -
  have ne: "m_namespace mb \<noteq> m_namespace ma" using assms(1) by (simp add: getNamespace_def)
  have same: "\<And>c. snd (invoke ma ta c w) (m_namespace mb) = w (m_namespace mb)"
    using invoke_frame[OF ne] by simp
  have 1: "fst (invoke mb tb cb (snd (invoke ma ta ca w))) = fst (invoke mb tb cb w)
       \<and> snd (invoke mb tb cb (snd (invoke ma ta ca w))) (getNamespace mb)
           = snd (invoke mb tb cb w) (getNamespace mb)"
    using invoke_local[of "snd (invoke ma ta ca w)" mb w tb cb] same[of ca]
    by (simp add: getNamespace_def)
  have st: "\<And>c. fst (getSharedState mb (snd (invoke ma ta c w))) = Storage sb"
  proof -
    fix c
    show "fst (getSharedState mb (snd (invoke ma ta c w))) = Storage sb"
      using getSharedState_cong[of "snd (invoke ma ta c w)" mb w] same[of c] assms(3) by simp
  qed
  have 2: "map_of (data sb) key = None \<and> key \<notin> set object_prototype_members \<Longrightarrow>
            fst (getSharedData mb key defaultValue (snd (setSharedData ma key val w)))
              = Inr defaultValue"
    using st[of "SetSharedData key val"]
    by (simp add: getSharedData_def case_prod_beta)
  have 3: "lookup_lock (locks sb) lockName = MUndefined \<Longrightarrow>
            fst (isLockHeld mb tb lockName (snd (acquireLock ma ta lockName md w))) = Inr False
          \<and> fst (acquireLock mb tb lockName md' (snd (acquireLock ma ta lockName md w)))
              = Inr \<lparr>success = True, currentOwnerId = None, wasStale = False\<rparr>"
    using st[of "AcquireLock lockName md"]
    by (simp add: isLockHeld_def acquireLock_def Let_def case_prod_beta)
  show ?thesis using 1 st[of ca] 2 3 by blast
qed

theorem namespace_isolation_witness:
  "getNamespace instance1 \<noteq> getNamespace instance3
   \<and> fst (getSharedState instance1 page_locked)
       = Storage \<lparr>version = ''1.0.0'',
           locks = \<lparr>own_locks =
                      [(''x'', \<lparr>ownerId = Some (m_instanceId instance1), timestamp = 1002,
                                 metadata = None\<rparr>)],
                    prototype_lock = None\<rparr>,
           data = []\<rparr>
   \<and> fst (getSharedState instance3 page_locked)
       = Storage \<lparr>version = ''1.0.0'', locks = \<lparr>own_locks = [], prototype_lock = None\<rparr>, data = []\<rparr>
   \<and> fst (invoke instance3 1005 (GetSharedData ''key'' JUndefined)
            (snd (invoke instance1 1004 (SetSharedData ''key'' (JStr ''value1'')) page_locked)))
       = Inr (Value JUndefined)
   \<and> fst (getSharedData instance3 ''key'' JUndefined
            (snd (setSharedData instance1 ''key'' (JStr ''value1'') page_locked))) = Inr JUndefined
   \<and> fst (isLockHeld instance3 1005 ''x'' (snd (acquireLock instance1 1004 ''x'' None page_locked)))
       = Inr False
   \<and> fst (acquireLock instance3 1005 ''x'' None
            (snd (acquireLock instance1 1004 ''x'' None page_locked)))
       = Inr \<lparr>success = True, currentOwnerId = None, wasStale = False\<rparr>"
proof -
  let ?sa = "\<lparr>version = ''1.0.0'',
           locks = \<lparr>own_locks =
                      [(''x'', \<lparr>ownerId = Some (m_instanceId instance1), timestamp = 1002,
                                 metadata = None\<rparr>)],
                    prototype_lock = None\<rparr>,
           data = []\<rparr>"
  let ?sb = "\<lparr>version = ''1.0.0'', locks = \<lparr>own_locks = [], prototype_lock = None\<rparr>, data = []\<rparr>"
  have ne: "getNamespace instance1 \<noteq> getNamespace instance3"
    by (simp add: getNamespace_def scenario_simps)
  have ga': "fst (getSharedState instance1 page_locked) = Storage ?sa"
    by (simp add: scenario_simps)
  have gb': "fst (getSharedState instance3 page_locked) = Storage ?sb"
    by (simp add: scenario_simps)
  have ga: "getSharedState instance1 page_locked = (Storage ?sa, snd (getSharedState instance1 page_locked))"
    using ga' by (cases "getSharedState instance1 page_locked") simp
  have gb: "getSharedState instance3 page_locked = (Storage ?sb, snd (getSharedState instance3 page_locked))"
    using gb' by (cases "getSharedState instance3 page_locked") simp
  have nokey: "map_of (data ?sb) ''key'' = None \<and> ''key'' \<notin> set object_prototype_members"
    by (simp add: object_prototype_members_def)
  have nolock: "lookup_lock (locks ?sb) ''x'' = MUndefined"
    by (simp add: lookup_lock_def object_prototype_members_def)
  have plain: "fst (invoke instance3 1005 (GetSharedData ''key'' JUndefined) page_locked)
                 = Inr (Value JUndefined)"
    by (simp add: scenario_simps getSharedData_def)
  note iso = namespace_isolation[OF ne ga gb, where tb = 1005
               and cb = "GetSharedData ''key'' JUndefined" and ta = 1004
               and ca = "SetSharedData ''key'' (JStr ''value1'')" and key = "''key''"
               and defaultValue = JUndefined and val = "JStr ''value1''" and lockName = "''x''"
               and md = None and md' = None]
  have a: "fst (invoke instance3 1005 (GetSharedData ''key'' JUndefined)
            (snd (invoke instance1 1004 (SetSharedData ''key'' (JStr ''value1'')) page_locked)))
       = Inr (Value JUndefined)"
    using conjunct1[OF iso] plain by simp
  have b: "fst (getSharedData instance3 ''key'' JUndefined
            (snd (setSharedData instance1 ''key'' (JStr ''value1'') page_locked))) = Inr JUndefined"
    using conjunct1[OF conjunct2[OF conjunct2[OF conjunct2[OF iso]]]] nokey by blast
  have c: "fst (isLockHeld instance3 1005 ''x'' (snd (acquireLock instance1 1004 ''x'' None page_locked)))
       = Inr False
   \<and> fst (acquireLock instance3 1005 ''x'' None
            (snd (acquireLock instance1 1004 ''x'' None page_locked)))
       = Inr \<lparr>success = True, currentOwnerId = None, wasStale = False\<rparr>"
    using conjunct2[OF conjunct2[OF conjunct2[OF conjunct2[OF iso]]]] nolock by blast
  show ?thesis using ne ga' gb' a b c by blast
qed

text \<open>
  The claim as first stated, for managers constructed with different namespace strings,
  fails: the empty string and the default namespace written out are different strings,
  and the two managers built from them share one namespace.  What one sets the other
  reads, and a lock one holds the other cannot acquire.
\<close>

theorem namespace_strings_counterexample:
  "opt_namespace options_empty \<noteq> opt_namespace options_default
   \<and> fst (getSharedData instance_default ''key'' JUndefined
            (snd (setSharedData instance_empty ''key'' (JStr ''value1'') page_default)))
       = Inr (JStr ''value1'')
   \<and> fst (isLockHeld instance_default 1003 ''testLock''
            (snd (acquireLock instance_empty 1002 ''testLock'' None page_default))) = Inr True
   \<and> fst (acquireLock instance_default 1003 ''testLock'' None
            (snd (acquireLock instance_empty 1002 ''testLock'' None page_default)))
       = Inr \<lparr>success = False, currentOwnerId = Some (m_instanceId instance_empty), wasStale = False\<rparr>"
  by (simp add: options_empty_def options_default_def scenario_simps getSharedData_def
        setSharedData_def isLockHeld_def acquireLock_def)

section \<open>Entering selection mode\<close>



end
